theory Spec2Isabelle
  imports Complex_Main "HOL-Library.Word"
begin

section \<open>The classifier service of backend/python/main.py\<close>

text \<open>
  The program is one module: its top level loads a network once, and the route
  \<^verbatim>\<open>predict\<close> decodes an upload, preprocesses it, runs the network and answers with
  the most probable class. Every step but the glue is a library call (PIL, torchvision,
  torch, timm, FastAPI). The library calls are fields of a record \<open>libs\<close>, so that the
  theorems hold for whatever the libraries compute, except where the library's
  documented behaviour is a few lines (\<^verbatim>\<open>ToTensor\<close>, \<^verbatim>\<open>Normalize\<close>, \<^verbatim>\<open>softmax\<close>,
  \<^verbatim>\<open>argmax\<close>, \<^verbatim>\<open>load_state_dict\<close>, \<^verbatim>\<open>eval\<close>): those are written out.

  Numbers: the program computes in 32-bit floating point. Here a tensor entry is a
  \<^typ>\<open>real\<close>, so rounding, overflow and NaN are outside the model.
\<close>

subsection \<open>Data\<close>

type_synonym byte = "8 word"

text \<open>An image after \<^verbatim>\<open>convert("RGB")\<close>: rows of pixels, three 8-bit channels each.\<close>

type_synonym pixel = "byte \<times> byte \<times> byte"
type_synonym rgb_image = "pixel list list"

text \<open>A tensor of shape channels x height x width; a batch is a list of them.\<close>

type_synonym tensor = "real list list list"

text \<open>
  The exceptions the module can meet, by the call that raises them:
  \<^verbatim>\<open>Image.open\<close> (\<open>UnidentifiedImageError\<close>), \<^verbatim>\<open>convert\<close> loading the pixel data
  (\<open>ImageLoadError\<close>, an \<^verbatim>\<open>OSError\<close> in PIL), \<^verbatim>\<open>torch.load\<close> (\<open>FileNotFoundError\<close>,
  \<open>UnpicklingError\<close>), \<^verbatim>\<open>load_state_dict\<close> (\<open>StateDictMismatch\<close>, a
  \<^verbatim>\<open>RuntimeError\<close> in torch), \<^verbatim>\<open>Normalize\<close> (\<open>ValueError\<close>), \<^verbatim>\<open>argmax\<close> of an
  empty tensor (\<open>EmptyReduction\<close>, a \<^verbatim>\<open>RuntimeError\<close>) and indexing (\<open>IndexError\<close>).
\<close>

datatype error =
    UnidentifiedImageError
  | ImageLoadError
  | FileNotFoundError
  | UnpicklingError
  | StateDictMismatch
  | ValueError
  | EmptyReduction
  | IndexError

text \<open>
  The libraries. \<open>'img\<close> is PIL's image in whatever mode the file had, \<open>'w\<close> a state
  dict (the parameters and buffers of a network).
  \<^item> \<open>image_open\<close>: \<^verbatim>\<open>Image.open(io.BytesIO(b))\<close>;
  \<^item> \<open>image_convert_rgb\<close>: \<^verbatim>\<open>.convert("RGB")\<close>, which also reads the pixel data;
  \<^item> \<open>image_resize\<close>: \<^verbatim>\<open>T.Resize((h, w))\<close> on an image;
  \<^item> \<open>cuda_is_available\<close>: \<^verbatim>\<open>torch.cuda.is_available()\<close>;
  \<^item> \<open>torch_load\<close>: \<^verbatim>\<open>torch.load(path, map_location)\<close>;
  \<^item> \<open>init_weights\<close>: the parameters \<^verbatim>\<open>timm.create_model(name, pretrained=False,
    num_classes)\<close> starts with;
  \<^item> \<open>head_width\<close>: the number of rows of the classifier layer in a state dict;
  \<open>body_matches\<close>: every other key and shape of the state dict is the architecture's;
  \<^item> \<open>forward_eval\<close>: the network on one sample in evaluation mode;
  \<^item> \<open>forward_train\<close>: the network on a batch in training mode, which draws from
    torch's random generator (dropout) and updates the batch-norm buffers;
  \<^item> \<open>torch_seed\<close>: the state of torch's random generator when the module is imported.
\<close>

record ('img, 'w) libs =
  image_open :: "byte list \<Rightarrow> error + 'img"
  image_convert_rgb :: "'img \<Rightarrow> error + rgb_image"
  image_resize :: "nat \<times> nat \<Rightarrow> rgb_image \<Rightarrow> rgb_image"
  cuda_is_available :: bool
  torch_load :: "string \<Rightarrow> string \<Rightarrow> error + 'w"
  init_weights :: "string \<Rightarrow> nat \<Rightarrow> 'w"
  head_width :: "'w \<Rightarrow> nat"
  body_matches :: "string \<Rightarrow> 'w \<Rightarrow> bool"
  forward_eval :: "'w \<Rightarrow> tensor \<Rightarrow> real list"
  forward_train :: "'w \<Rightarrow> nat \<Rightarrow> tensor list \<Rightarrow> real list list \<times> 'w \<times> nat"
  torch_seed :: nat

text \<open>A \<^verbatim>\<open>torch.nn.Module\<close> as far as the program touches it.\<close>

record 'w nn_module =
  arch :: string
  num_classes :: nat
  params :: 'w
  device :: string
  training :: bool

text \<open>The arguments of the \<^verbatim>\<open>T.Compose\<close> pipeline.\<close>

record preprocessing =
  target_size :: "nat \<times> nat"
  norm_mean :: "real list"
  norm_std :: "real list"

text \<open>The module's globals that \<^verbatim>\<open>predict\<close> reads, and torch's random generator.\<close>

record 'w globals =
  DEVICE :: string
  model :: "'w nn_module"
  class_names :: "string list"
  transform_cfg :: preprocessing
  torch_rng :: nat

text \<open>The dictionary \<^verbatim>\<open>predict\<close> returns: keys \<^verbatim>\<open>"class"\<close> and \<^verbatim>\<open>"confidence"\<close>.\<close>

record prediction =
  cls :: string
  confidence :: real

record response =
  status :: nat
  body :: "prediction option"

subsection \<open>Module constants (lines 29-30, 43-48)\<close>

definition NUM_CLASSES :: nat where
  "NUM_CLASSES = 4"

definition CLASS_NAMES :: "string list" where
  "CLASS_NAMES = [''Scab'', ''Black Rot'', ''Cedar Rust'', ''Healthy'']"

definition transform_config :: preprocessing where
  "transform_config =
     \<lparr>target_size = (224, 224),
      norm_mean = [0.485, 0.456, 0.406],
      norm_std = [0.229, 0.224, 0.225]\<rparr>"

subsection \<open>Start-up (lines 27-41)\<close>

text \<open>\<^verbatim>\<open>timm.create_model(name, pretrained=False, num_classes=n)\<close>: a fresh module, on
  the CPU and in training mode as every new module is.\<close>

definition create_model :: "('img, 'w) libs \<Rightarrow> string \<Rightarrow> nat \<Rightarrow> 'w nn_module" where
  "create_model L name n =
     \<lparr>arch = name, num_classes = n, params = init_weights L name n,
      device = ''cpu'', training = True\<rparr>"

text \<open>\<^verbatim>\<open>load_state_dict(state)\<close> with its default \<^verbatim>\<open>strict=True\<close>: a key or a shape
  that is not the module's raises.\<close>

definition load_state_dict ::
  "('img, 'w) libs \<Rightarrow> 'w nn_module \<Rightarrow> 'w \<Rightarrow> error + 'w nn_module" where
  "load_state_dict L m sd =
     (if body_matches L (arch m) sd \<and> head_width L sd = num_classes m
      then Inr (m\<lparr>params := sd\<rparr>)
      else Inl StateDictMismatch)"

definition module_to :: "string \<Rightarrow> 'w nn_module \<Rightarrow> 'w nn_module" where
  "module_to d m = m\<lparr>device := d\<rparr>"

definition module_eval :: "'w nn_module \<Rightarrow> 'w nn_module" where
  "module_eval m = m\<lparr>training := False\<rparr>"

text \<open>The top level of the module, in its order. An exception there ends the import,
  so no \<^verbatim>\<open>app\<close> with a loaded model exists.\<close>

definition startup :: "('img, 'w) libs \<Rightarrow> error + 'w globals" where
  "startup L =
     (let dev = (if cuda_is_available L then ''cuda'' else ''cpu'');
          m = create_model L ''efficientnet_b0'' NUM_CLASSES
      in case torch_load L ''model.pth'' dev of
           Inl e \<Rightarrow> Inl e
         | Inr state \<Rightarrow>
             (case load_state_dict L m state of
                Inl e \<Rightarrow> Inl e
              | Inr m1 \<Rightarrow>
                  Inr \<lparr>DEVICE = dev,
                       model = module_eval (module_to dev m1),
                       class_names = CLASS_NAMES,
                       transform_cfg = transform_config,
                       torch_rng = torch_seed L\<rparr>))"

subsection \<open>Preprocessing (lines 43-48)\<close>

text \<open>\<^verbatim>\<open>T.ToTensor()\<close> on an RGB image: one plane per channel, each intensity divided by
  255.\<close>

definition plane :: "(pixel \<Rightarrow> byte) \<Rightarrow> rgb_image \<Rightarrow> real list list" where
  "plane sel im = map (map (\<lambda>p. real (unat (sel p)) / 255)) im"

definition to_tensor :: "rgb_image \<Rightarrow> tensor" where
  "to_tensor im =
     [plane (\<lambda>(r, g, b). r) im, plane (\<lambda>(r, g, b). g) im, plane (\<lambda>(r, g, b). b) im]"

text \<open>\<^verbatim>\<open>T.Normalize(mean, std)\<close>: refuses a zero deviation, then subtracts the channel's
  mean and divides by the channel's deviation. The tensor of \<open>to_tensor\<close> and the two
  lists of the module have three entries each, so the channels pair up one to one.\<close>

definition normalize :: "real list \<Rightarrow> real list \<Rightarrow> tensor \<Rightarrow> error + tensor" where
  "normalize mean std t =
     (if 0 \<in> set std then Inl ValueError
      else Inr (map (\<lambda>(pl, m, s). map (map (\<lambda>v. (v - m) / s)) pl) (zip t (zip mean std))))"

definition transform :: "('img, 'w) libs \<Rightarrow> preprocessing \<Rightarrow> rgb_image \<Rightarrow> error + tensor" where
  "transform L cfg im =
     normalize (norm_mean cfg) (norm_std cfg) (to_tensor (image_resize L (target_size cfg) im))"

subsection \<open>The forward pass and the selection (lines 55-59)\<close>

text \<open>\<^verbatim>\<open>model(x)\<close> on a batch. In evaluation mode the samples go through the network one
  by one and nothing is written; in training mode the library's training pass runs.\<close>

definition call_module ::
  "('img, 'w) libs \<Rightarrow> 'w nn_module \<Rightarrow> nat \<Rightarrow> tensor list \<Rightarrow> real list list \<times> 'w nn_module \<times> nat" where
  "call_module L m rng xs =
     (if training m
      then (case forward_train L (params m) rng xs of
              (ys, w', rng') \<Rightarrow> (ys, m\<lparr>params := w'\<rparr>, rng'))
      else (map (forward_eval L (params m)) xs, m, rng))"

text \<open>\<^verbatim>\<open>torch.softmax\<close> along the class dimension.\<close>

definition softmax :: "real list \<Rightarrow> real list" where
  "softmax xs = map (\<lambda>x. exp x / sum_list (map exp xs)) xs"

text \<open>\<^verbatim>\<open>torch.argmax\<close>: the index of the first maximal entry; an empty tensor raises.
  \<open>argmax_from bi bv i xs\<close> scans \<open>xs\<close>, whose first entry has index \<open>i\<close>, holding the
  best index and value so far.\<close>

fun argmax_from :: "nat \<Rightarrow> real \<Rightarrow> nat \<Rightarrow> real list \<Rightarrow> nat" where
  "argmax_from bi bv i [] = bi"
| "argmax_from bi bv i (x # xs) =
     (if bv < x then argmax_from i x (Suc i) xs else argmax_from bi bv (Suc i) xs)"

definition argmax :: "real list \<Rightarrow> error + nat" where
  "argmax xs = (case xs of [] \<Rightarrow> Inl EmptyReduction | x # r \<Rightarrow> Inr (argmax_from 0 x 1 r))"

text \<open>Indexing with \<^verbatim>\<open>[i]\<close> for \<open>i \<ge> 0\<close>: out of range raises.\<close>

definition getitem :: "'a list \<Rightarrow> nat \<Rightarrow> error + 'a" where
  "getitem xs i = (if i < length xs then Inr (xs ! i) else Inl IndexError)"

subsection \<open>The route (lines 50-63)\<close>

text \<open>
  \<open>predict L g b\<close> is the body of the route on the uploaded bytes \<open>b\<close>, with the
  globals \<open>g\<close>: the value returned or the exception raised, and the globals afterwards.
  \<^verbatim>\<open>unsqueeze(0)\<close> makes the batch of one; \<^verbatim>\<open>.to(DEVICE)\<close> and \<^verbatim>\<open>torch.no_grad()\<close>
  change no value.
\<close>

definition predict ::
  "('img, 'w) libs \<Rightarrow> 'w globals \<Rightarrow> byte list \<Rightarrow> (error + prediction) \<times> 'w globals" where
  "predict L g b =
     (case image_open L b of
        Inl e \<Rightarrow> (Inl e, g)
      | Inr opened \<Rightarrow>
     (case image_convert_rgb L opened of
        Inl e \<Rightarrow> (Inl e, g)
      | Inr img \<Rightarrow>
     (case transform L (transform_cfg g) img of
        Inl e \<Rightarrow> (Inl e, g)
      | Inr t \<Rightarrow>
     (case call_module L (model g) (torch_rng g) [t] of
        (logits, m', rng') \<Rightarrow>
          (let g' = g\<lparr>model := m', torch_rng := rng'\<rparr> in
           case getitem (map softmax logits) 0 of
             Inl e \<Rightarrow> (Inl e, g')
           | Inr probs \<Rightarrow>
          (case argmax probs of
             Inl e \<Rightarrow> (Inl e, g')
           | Inr idx \<Rightarrow>
          (case getitem (class_names g') idx of
             Inl e \<Rightarrow> (Inl e, g')
           | Inr name \<Rightarrow>
          (case getitem probs idx of
             Inl e \<Rightarrow> (Inl e, g')
           | Inr p \<Rightarrow> (Inr \<lparr>cls = name, confidence = p\<rparr>, g')))))))))"

subsection \<open>The HTTP boundary\<close>

text \<open>
  The route is registered with \<^verbatim>\<open>@app.post("/predict")\<close> and nothing else: the module
  has no \<^verbatim>\<open>try\<close>, raises no \<^verbatim>\<open>HTTPException\<close> and registers no exception handler.
  FastAPI answers a returned dictionary with status 200 and an exception that leaves
  the route with status 500; the server goes on with the next request.
\<close>

definition post_predict ::
  "('img, 'w) libs \<Rightarrow> 'w globals \<Rightarrow> byte list \<Rightarrow> response \<times> 'w globals" where
  "post_predict L g b =
     (case predict L g b of
        (Inr p, g') \<Rightarrow> (\<lparr>status = 200, body = Some p\<rparr>, g')
      | (Inl e, g') \<Rightarrow> (\<lparr>status = 500, body = None\<rparr>, g'))"

definition client_error :: "nat \<Rightarrow> bool" where
  "client_error s = (400 \<le> s \<and> s < 500)"

text \<open>The process: the import of the module either fails, and then there is no
  application to serve with, or leaves the globals the requests are served from.\<close>

datatype 'w process = Failed error | Serving "'w globals"

definition boot :: "('img, 'w) libs \<Rightarrow> 'w process" where
  "boot L = (case startup L of Inl e \<Rightarrow> Failed e | Inr g \<Rightarrow> Serving g)"

fun serve ::
  "('img, 'w) libs \<Rightarrow> 'w process \<Rightarrow> byte list list \<Rightarrow> response list \<times> 'w process" where
  "serve L (Failed e) bs = ([], Failed e)"
| "serve L (Serving g) [] = ([], Serving g)"
| "serve L (Serving g) (b # bs) =
     (case post_predict L g b of
        (r, g') \<Rightarrow> (case serve L (Serving g') bs of (rs, p) \<Rightarrow> (r # rs, p)))"

subsection \<open>A concrete instance of the libraries\<close>

text \<open>
  The closed examples below run the module on concrete libraries. The decoder reads
  binary PPM files of one pixel (the header \<^verbatim>\<open>P6 1 1 255\<close> and three bytes) and
  refuses every other buffer, as PIL refuses a buffer no plugin identifies; the resize
  takes the nearest pixel; the parameter file \<^verbatim>\<open>model.pth\<close> holds a network that
  answers every input with the logits \<open>[0.1, 5.0, 0.2, 0.3]\<close>, and whose training
  pass would shift them and advance the random generator.
\<close>

definition ppm_header :: "byte list" where
  "ppm_header = [0x50, 0x36, 0x0A, 0x31, 0x20, 0x31, 0x0A, 0x32, 0x35, 0x35, 0x0A]"

definition sample_open :: "byte list \<Rightarrow> error + rgb_image" where
  "sample_open b =
     (if length b = 14 \<and> take 11 b = ppm_header
      then Inr [[(b ! 11, b ! 12, b ! 13)]]
      else Inl UnidentifiedImageError)"

definition sample_resize :: "nat \<times> nat \<Rightarrow> rgb_image \<Rightarrow> rgb_image" where
  "sample_resize sz im =
     (case sz of (h, w) \<Rightarrow>
        map (\<lambda>y. let row = im ! (y * length im div h)
                 in map (\<lambda>x. row ! (x * length row div w)) [0..<w]) [0..<h])"

definition sample_libs :: "(rgb_image, real list) libs" where
  "sample_libs =
     \<lparr>image_open = sample_open,
      image_convert_rgb = Inr,
      image_resize = sample_resize,
      cuda_is_available = False,
      torch_load = (\<lambda>path dev. if path = ''model.pth'' then Inr [0.1, 5.0, 0.2, 0.3]
                                else Inl FileNotFoundError),
      init_weights = (\<lambda>name n. replicate n 0),
      head_width = length,
      body_matches = (\<lambda>name w. True),
      forward_eval = (\<lambda>w x. w),
      forward_train = (\<lambda>w rng xs. (map (\<lambda>x. map (\<lambda>v. v + real rng) w) xs, map (\<lambda>v. v + 1) w, Suc rng)),
      torch_seed = 0\<rparr>"

text \<open>The same libraries with a parameter file for three classes.\<close>

definition sample_libs_3 :: "(rgb_image, real list) libs" where
  "sample_libs_3 = sample_libs\<lparr>torch_load := (\<lambda>path dev. Inr [0.5, 0.25, 0.125])\<rparr>"

text \<open>The globals after the import of the module on \<open>sample_libs\<close>.\<close>

definition sample_globals :: "real list globals" where
  "sample_globals =
     \<lparr>DEVICE = ''cpu'',
      model = \<lparr>arch = ''efficientnet_b0'', num_classes = 4, params = [0.1, 5.0, 0.2, 0.3],
               device = ''cpu'', training = False\<rparr>,
      class_names = CLASS_NAMES,
      transform_cfg = transform_config,
      torch_rng = 0\<rparr>"

text \<open>Uploads: a PPM file of one red pixel, and the text \<^verbatim>\<open>hello\<close>.\<close>

definition red_pixel_ppm :: "byte list" where
  "red_pixel_ppm = ppm_header @ [255, 0, 0]"

definition hello_bytes :: "byte list" where
  "hello_bytes = [0x68, 0x65, 0x6C, 0x6C, 0x6F]"

section \<open>Lemmas on the written-out library functions\<close>

subsection \<open>The first maximum\<close>

lemma argmax_from_spec:
  assumes "length pre = i" "bi < i" "pre ! bi = bv"
    and "\<forall>j<i. pre ! j \<le> bv" and "\<forall>j<bi. pre ! j < bv"
  shows "argmax_from bi bv i xs < length (pre @ xs)
       \<and> (\<forall>j<length (pre @ xs). (pre @ xs) ! j \<le> (pre @ xs) ! argmax_from bi bv i xs)
       \<and> (\<forall>j<argmax_from bi bv i xs. (pre @ xs) ! j < (pre @ xs) ! argmax_from bi bv i xs)"
  using assms
proof (induction xs arbitrary: pre bi bv i)
  case Nil
  then show ?case by auto
next
  case (Cons x xs)
  show ?case
  proof (cases "bv < x")
    case True
    have "argmax_from i x (Suc i) xs < length ((pre @ [x]) @ xs)
       \<and> (\<forall>j<length ((pre @ [x]) @ xs). ((pre @ [x]) @ xs) ! j \<le> ((pre @ [x]) @ xs) ! argmax_from i x (Suc i) xs)
       \<and> (\<forall>j<argmax_from i x (Suc i) xs. ((pre @ [x]) @ xs) ! j < ((pre @ [x]) @ xs) ! argmax_from i x (Suc i) xs)"
    proof (rule Cons.IH)
      show "length (pre @ [x]) = Suc i" using Cons.prems by simp
      show "i < Suc i" by simp
      show "(pre @ [x]) ! i = x" using Cons.prems by (simp add: nth_append)
      show "\<forall>j<Suc i. (pre @ [x]) ! j \<le> x"
        using Cons.prems True by (auto simp: nth_append less_Suc_eq intro: order.trans less_imp_le)
      show "\<forall>j<i. (pre @ [x]) ! j < x"
        using Cons.prems True by (auto simp: nth_append intro: le_less_trans)
    qed
    with True show ?thesis by simp
  next
    case False
    have "argmax_from bi bv (Suc i) xs < length ((pre @ [x]) @ xs)
       \<and> (\<forall>j<length ((pre @ [x]) @ xs). ((pre @ [x]) @ xs) ! j \<le> ((pre @ [x]) @ xs) ! argmax_from bi bv (Suc i) xs)
       \<and> (\<forall>j<argmax_from bi bv (Suc i) xs. ((pre @ [x]) @ xs) ! j < ((pre @ [x]) @ xs) ! argmax_from bi bv (Suc i) xs)"
    proof (rule Cons.IH)
      show "length (pre @ [x]) = Suc i" using Cons.prems by simp
      show "bi < Suc i" using Cons.prems by simp
      show "(pre @ [x]) ! bi = bv" using Cons.prems by (simp add: nth_append)
      show "\<forall>j<Suc i. (pre @ [x]) ! j \<le> bv"
        using Cons.prems False by (auto simp: nth_append less_Suc_eq)
      show "\<forall>j<bi. (pre @ [x]) ! j < bv"
        using Cons.prems by (auto simp: nth_append)
    qed
    with False show ?thesis by simp
  qed
qed

lemma argmax_first_max:
  assumes "xs \<noteq> []"
  shows "\<exists>idx. argmax xs = Inr idx \<and> idx < length xs
            \<and> (\<forall>j<length xs. xs ! j \<le> xs ! idx) \<and> (\<forall>j<idx. xs ! j < xs ! idx)"
proof -
  from assms obtain x r where xs: "xs = x # r" by (cases xs) auto
  have "argmax_from 0 x 1 r < length ([x] @ r)
       \<and> (\<forall>j<length ([x] @ r). ([x] @ r) ! j \<le> ([x] @ r) ! argmax_from 0 x 1 r)
       \<and> (\<forall>j<argmax_from 0 x 1 r. ([x] @ r) ! j < ([x] @ r) ! argmax_from 0 x 1 r)"
    by (rule argmax_from_spec) auto
  then show ?thesis by (simp add: xs argmax_def)
qed

lemma first_max_unique:
  fixes xs :: "real list"
  assumes "i < length xs" "\<forall>j<length xs. xs ! j \<le> xs ! i" "\<forall>j<i. xs ! j < xs ! i"
    and "k < length xs" "\<forall>j<length xs. xs ! j \<le> xs ! k" "\<forall>j<k. xs ! j < xs ! k"
  shows "i = k"
proof (rule ccontr)
  assume "i \<noteq> k"
  then consider "i < k" | "k < i" by linarith
  then show False
  proof cases
    case 1
    with assms have "xs ! i < xs ! k" "xs ! k \<le> xs ! i" by auto
    then show False by simp
  next
    case 2
    with assms have "xs ! k < xs ! i" "xs ! i \<le> xs ! k" by auto
    then show False by simp
  qed
qed

subsection \<open>The softmax is a distribution\<close>

lemma sum_exp_pos: "xs \<noteq> [] \<Longrightarrow> 0 < sum_list (map exp (xs :: real list))"
proof (induction xs)
  case Nil then show ?case by simp
next
  case (Cons x xs)
  have "0 \<le> sum_list (map exp xs)" by (rule sum_list_nonneg) auto
  then show ?case by (simp add: add_pos_nonneg)
qed

lemma exp_le_sum_exp: "x \<in> set xs \<Longrightarrow> exp x \<le> sum_list (map exp (xs :: real list))"
proof (induction xs)
  case Nil then show ?case by simp
next
  case (Cons y ys)
  have nn: "0 \<le> sum_list (map exp ys)" by (rule sum_list_nonneg) auto
  show ?case
  proof (cases "x = y")
    case True with nn show ?thesis by (simp add: add_increasing2)
  next
    case False
    with Cons have "exp x \<le> sum_list (map exp ys)" by simp
    then show ?thesis by (simp add: add_increasing)
  qed
qed


lemma length_softmax: "length (softmax xs) = length xs"
  by (simp add: softmax_def)

lemma softmax_nth: "i < length xs \<Longrightarrow> softmax xs ! i = exp (xs ! i) / sum_list (map exp xs)"
  by (simp add: softmax_def)


lemma softmax_nonneg: "i < length xs \<Longrightarrow> 0 \<le> softmax xs ! i"
proof -
  assume i: "i < length xs"
  then have "xs \<noteq> []" by auto
  then have "0 < sum_list (map exp xs)" by (rule sum_exp_pos)
  with i show ?thesis by (simp add: softmax_nth)
qed

lemma softmax_le_one: "i < length xs \<Longrightarrow> softmax xs ! i \<le> 1"
proof -
  assume i: "i < length xs"
  then have "xs \<noteq> []" by auto
  then have pos: "0 < sum_list (map exp xs)" by (rule sum_exp_pos)
  from i have "exp (xs ! i) \<le> sum_list (map exp xs)" by (intro exp_le_sum_exp) simp
  with pos i show ?thesis by (simp add: softmax_nth)
qed

lemma softmax_less_iff:
  assumes "i < length xs" "j < length xs"
  shows "softmax xs ! i < softmax xs ! j \<longleftrightarrow> xs ! i < xs ! j"
proof -
  from assms have "xs \<noteq> []" by auto
  then have pos: "0 < sum_list (map exp xs)" by (rule sum_exp_pos)
  with assms show ?thesis by (simp add: softmax_nth divide_less_cancel)
qed

lemma softmax_le_iff:
  assumes "i < length xs" "j < length xs"
  shows "softmax xs ! i \<le> softmax xs ! j \<longleftrightarrow> xs ! i \<le> xs ! j"
  using softmax_less_iff [OF assms(2) assms(1)] by (simp add: not_less [symmetric])


section \<open>Lemmas on the module\<close>

subsection \<open>Start-up\<close>

lemma startup_globals:
  assumes "startup L = Inr g"
  shows "training (model g) = False" "class_names g = CLASS_NAMES"
    "transform_cfg g = transform_config" "num_classes (model g) = NUM_CLASSES"
    "head_width L (params (model g)) = NUM_CLASSES"
  using assms
  by (auto simp: startup_def Let_def load_state_dict_def create_model_def module_to_def
      module_eval_def split: sum.splits if_splits)

lemma startup_sample: "startup sample_libs = Inr sample_globals"
  by (simp add: startup_def sample_libs_def sample_globals_def create_model_def load_state_dict_def
      module_to_def module_eval_def NUM_CLASSES_def Let_def)

subsection \<open>Preprocessing\<close>

lemma transform_config_total:
  "\<exists>t. transform L transform_config im = Inr t"
  by (simp add: transform_def transform_config_def normalize_def)

subsection \<open>The route in evaluation mode\<close>

lemma predict_decode_error:
  assumes "image_open L b = Inl e
         \<or> (\<exists>opened. image_open L b = Inr opened \<and> image_convert_rgb L opened = Inl e)"
  shows "predict L g b = (Inl e, g)"
  using assms by (auto simp: predict_def)

lemma predict_eval:
  assumes "training (model g) = False"
    and "image_open L b = Inr opened" and "image_convert_rgb L opened = Inr im"
    and "transform L (transform_cfg g) im = Inr t"
    and "argmax (softmax (forward_eval L (params (model g)) t)) = Inr idx"
    and "idx < length (class_names g)"
    and "idx < length (forward_eval L (params (model g)) t)"
  shows "predict L g b =
           (Inr \<lparr>cls = class_names g ! idx,
                 confidence = softmax (forward_eval L (params (model g)) t) ! idx\<rparr>, g)"
  using assms by (simp add: predict_def call_module_def getitem_def length_softmax)

lemma predict_eval_frame:
  assumes "training (model g) = False"
  shows "snd (predict L g b) = g"
  using assms
  by (simp add: predict_def call_module_def Let_def split: sum.splits prod.splits)

lemma post_predict_frame:
  assumes "training (model g) = False"
  shows "snd (post_predict L g b) = g"
  using predict_eval_frame [OF assms, of L b]
  by (auto simp: post_predict_def split: sum.splits prod.splits)

lemma serve_eval:
  assumes "training (model g) = False"
  shows "serve L (Serving g) bs = (map (\<lambda>b. fst (post_predict L g b)) bs, Serving g)"
proof (induction bs)
  case Nil
  then show ?case by simp
next
  case (Cons b bs)
  obtain r g' where r: "post_predict L g b = (r, g')" by (cases "post_predict L g b")
  with post_predict_frame [OF assms, of L b] have "g' = g" by simp
  with r Cons show ?case by simp
qed

lemma predict_selected:
  assumes "startup L = Inr g"
    and "\<And>w x. length (forward_eval L w x) = head_width L w"
    and "image_open L b = Inr opened" and "image_convert_rgb L opened = Inr im"
  shows "\<exists>t idx. transform L transform_config im = Inr t
           \<and> idx < NUM_CLASSES
           \<and> length (softmax (forward_eval L (params (model g)) t)) = NUM_CLASSES
           \<and> (\<forall>j<NUM_CLASSES. softmax (forward_eval L (params (model g)) t) ! j
                               \<le> softmax (forward_eval L (params (model g)) t) ! idx)
           \<and> (\<forall>j<idx. softmax (forward_eval L (params (model g)) t) ! j
                        < softmax (forward_eval L (params (model g)) t) ! idx)
           \<and> predict L g b =
               (Inr \<lparr>cls = CLASS_NAMES ! idx,
                     confidence = softmax (forward_eval L (params (model g)) t) ! idx\<rparr>, g)"
proof -
  note st = startup_globals [OF assms(1)]
  obtain t where t: "transform L transform_config im = Inr t"
    using transform_config_total by blast
  let ?logits = "forward_eval L (params (model g)) t"
  have len: "length ?logits = NUM_CLASSES" using assms(2) st(5) by simp
  then have len': "length (softmax ?logits) = NUM_CLASSES" by (simp add: length_softmax)
  then have "softmax ?logits \<noteq> []" by (auto simp: NUM_CLASSES_def)
  from argmax_first_max [OF this] obtain idx where idx:
    "argmax (softmax ?logits) = Inr idx" "idx < length (softmax ?logits)"
    "\<forall>j<length (softmax ?logits). softmax ?logits ! j \<le> softmax ?logits ! idx"
    "\<forall>j<idx. softmax ?logits ! j < softmax ?logits ! idx"
    by blast
  have names: "length (class_names g) = NUM_CLASSES"
    by (simp add: st(2) CLASS_NAMES_def NUM_CLASSES_def)
  have "predict L g b = (Inr \<lparr>cls = class_names g ! idx, confidence = softmax ?logits ! idx\<rparr>, g)"
    using st(1) assms(3,4) _ idx(1)
  proof (rule predict_eval)
    show "transform L (transform_cfg g) im = Inr t" using t st(3) by simp
    show "idx < length (class_names g)" using idx(2) len' names by simp
    show "idx < length ?logits" using idx(2) len' len by simp
  qed
  with t idx len' st(2) show ?thesis by auto
qed

subsection \<open>The concrete libraries\<close>

lemma sample_open_red: "image_open sample_libs red_pixel_ppm = Inr [[(255, 0, 0)]]"
  by (simp add: sample_libs_def sample_open_def red_pixel_ppm_def ppm_header_def)

lemma sample_convert: "image_convert_rgb sample_libs im = Inr im"
  by (simp add: sample_libs_def)

lemma sample_width: "length (forward_eval sample_libs w x) = head_width sample_libs w"
  by (simp add: sample_libs_def)

lemma sample_forward:
  "forward_eval sample_libs (params (model sample_globals)) x = [0.1, 5.0, 0.2, 0.3]"
  by (simp add: sample_libs_def sample_globals_def)

lemma sample_open_hello: "image_open sample_libs hello_bytes = Inl UnidentifiedImageError"
  by (simp add: sample_libs_def sample_open_def hello_bytes_def)

lemma sample_open_empty: "image_open sample_libs [] = Inl UnidentifiedImageError"
  by (simp add: sample_libs_def sample_open_def)

lemma sample_resize_pixel: "sample_resize (h, w) [[p]] = replicate h (replicate w p)"
  by (auto simp: sample_resize_def Let_def list_eq_iff_nth_eq)

section \<open>The properties of the specification\<close>

text \<open>
  The theorems on \<^verbatim>\<open>predict\<close> are about the globals \<open>g\<close> that the import of the module
  leaves (\<open>startup L = Inr g\<close>); by \<open>serve_eval\<close> these are the globals of every later
  request too. Where the width of the network's output matters, the hypothesis
  \<open>length (forward_eval L w x) = head_width L w\<close> says what torch guarantees: a network
  answers with as many logits as its classifier layer has rows.
\<close>

text \<open>
  C1. For every upload that PIL opens and converts to RGB (an image of any mode it
  supports), \<^verbatim>\<open>predict\<close> returns a dictionary whose class is one of \<open>CLASS_NAMES\<close> and
  whose confidence lies between 0 and 1, both included.
\<close>

theorem predict_label_and_confidence:
  assumes "startup L = Inr g"
    and "\<And>w x. length (forward_eval L w x) = head_width L w"
    and "image_open L b = Inr opened" and "image_convert_rgb L opened = Inr im"
  shows "\<exists>p. predict L g b = (Inr p, g) \<and> cls p \<in> set CLASS_NAMES
           \<and> 0 \<le> confidence p \<and> confidence p \<le> 1"
proof -
  from predict_selected [OF assms] obtain t idx where sel:
    "idx < NUM_CLASSES" "length (softmax (forward_eval L (params (model g)) t)) = NUM_CLASSES"
    "predict L g b = (Inr \<lparr>cls = CLASS_NAMES ! idx,
        confidence = softmax (forward_eval L (params (model g)) t) ! idx\<rparr>, g)"
    by blast
  let ?logits = "forward_eval L (params (model g)) t"
  have i: "idx < length ?logits" using sel(1,2) by (simp add: length_softmax)
  have "CLASS_NAMES ! idx \<in> set CLASS_NAMES"
    using sel(1) by (intro nth_mem) (simp add: CLASS_NAMES_def NUM_CLASSES_def)
  moreover have "0 \<le> softmax ?logits ! idx" using i by (rule softmax_nonneg)
  moreover have "softmax ?logits ! idx \<le> 1" using i by (rule softmax_le_one)
  ultimately show ?thesis using sel(3) by simp
qed

theorem predict_label_and_confidence_witness:
  "\<exists>p. predict sample_libs sample_globals red_pixel_ppm = (Inr p, sample_globals)
       \<and> cls p \<in> set CLASS_NAMES \<and> 0 \<le> confidence p \<and> confidence p \<le> 1"
  by (rule predict_label_and_confidence
        [OF startup_sample sample_width sample_open_red sample_convert])

text \<open>The logits of the specification's example: entry 1 is the greatest.\<close>

lemma sample_logits_max:
  "\<forall>j<length [0.1, 5.0, 0.2, 0.3 :: real].
      softmax [0.1, 5.0, 0.2, 0.3] ! j \<le> softmax [0.1, 5.0, 0.2, 0.3] ! 1"
proof (intro allI impI)
  fix j :: nat
  assume j: "j < length [0.1, 5.0, 0.2, 0.3 :: real]"
  then have "[0.1, 5.0, 0.2, 0.3 :: real] ! j \<le> [0.1, 5.0, 0.2, 0.3 :: real] ! 1"
    by (auto simp: less_Suc_eq numeral_eq_Suc nth_Cons')
  with j show "softmax [0.1, 5.0, 0.2, 0.3] ! j \<le> softmax [0.1, 5.0, 0.2, 0.3] ! 1"
    by (subst softmax_le_iff) simp_all
qed

lemma sample_logits_first:
  "\<forall>j<1. softmax [0.1, 5.0, 0.2, 0.3] ! j < softmax [0.1, 5.0, 0.2, 0.3] ! 1"
  by (simp add: softmax_less_iff)

text \<open>
  C3. The selection takes the index of the greatest probability, and of equal greatest
  ones the first: the returned class is \<open>CLASS_NAMES ! idx\<close> and the confidence the
  probability at \<open>idx\<close>, where no probability exceeds that at \<open>idx\<close> and every earlier
  one is strictly smaller. In particular, when the forward pass gives the logits
  \<open>[0.1, 5.0, 0.2, 0.3]\<close>, \<^verbatim>\<open>predict\<close> returns the class \<^verbatim>\<open>Black Rot\<close> with the
  confidence \<open>softmax [0.1, 5.0, 0.2, 0.3] ! 1\<close>.
\<close>

theorem selection_is_first_maximum:
  assumes "startup L = Inr g"
    and "\<And>w x. length (forward_eval L w x) = head_width L w"
    and "image_open L b = Inr opened" and "image_convert_rgb L opened = Inr im"
  shows "\<exists>t idx. transform L transform_config im = Inr t
           \<and> idx < NUM_CLASSES
           \<and> (\<forall>j<NUM_CLASSES. softmax (forward_eval L (params (model g)) t) ! j
                               \<le> softmax (forward_eval L (params (model g)) t) ! idx)
           \<and> (\<forall>j<idx. softmax (forward_eval L (params (model g)) t) ! j
                        < softmax (forward_eval L (params (model g)) t) ! idx)
           \<and> predict L g b =
               (Inr \<lparr>cls = CLASS_NAMES ! idx,
                     confidence = softmax (forward_eval L (params (model g)) t) ! idx\<rparr>, g)
           \<and> (forward_eval L (params (model g)) t = [0.1, 5.0, 0.2, 0.3] \<longrightarrow>
                predict L g b =
                  (Inr \<lparr>cls = ''Black Rot'',
                        confidence = softmax [0.1, 5.0, 0.2, 0.3] ! 1\<rparr>, g))"
proof -
  from predict_selected [OF assms] obtain t idx where sel:
    "transform L transform_config im = Inr t" "idx < NUM_CLASSES"
    "length (softmax (forward_eval L (params (model g)) t)) = NUM_CLASSES"
    "\<forall>j<NUM_CLASSES. softmax (forward_eval L (params (model g)) t) ! j
                               \<le> softmax (forward_eval L (params (model g)) t) ! idx"
    "\<forall>j<idx. softmax (forward_eval L (params (model g)) t) ! j
                        < softmax (forward_eval L (params (model g)) t) ! idx"
    "predict L g b = (Inr \<lparr>cls = CLASS_NAMES ! idx,
        confidence = softmax (forward_eval L (params (model g)) t) ! idx\<rparr>, g)"
    by blast
  have "predict L g b =
          (Inr \<lparr>cls = ''Black Rot'', confidence = softmax [0.1, 5.0, 0.2, 0.3] ! 1\<rparr>, g)"
    if eq: "forward_eval L (params (model g)) t = [0.1, 5.0, 0.2, 0.3]"
  proof -
    let ?p = "softmax [0.1, 5.0, 0.2, 0.3 :: real]"
    have len: "length ?p = 4" by (simp add: length_softmax)
    have "idx = 1"
    proof (rule first_max_unique)
      show "idx < length ?p" using sel(2) len by (simp add: NUM_CLASSES_def)
      show "\<forall>j<length ?p. ?p ! j \<le> ?p ! idx" using sel(4) eq len by (simp add: NUM_CLASSES_def)
      show "\<forall>j<idx. ?p ! j < ?p ! idx" using sel(5) eq by simp
      show "1 < length ?p" using len by simp
      show "\<forall>j<length ?p. ?p ! j \<le> ?p ! 1" using sample_logits_max by (simp add: length_softmax)
      show "\<forall>j<1. ?p ! j < ?p ! 1" by (rule sample_logits_first)
    qed
    with sel(6) eq show ?thesis by (simp add: CLASS_NAMES_def)
  qed
  with sel show ?thesis by blast
qed

theorem selection_is_first_maximum_witness:
  "predict sample_libs sample_globals red_pixel_ppm =
     (Inr \<lparr>cls = ''Black Rot'', confidence = softmax [0.1, 5.0, 0.2, 0.3] ! 1\<rparr>, sample_globals)"
  using selection_is_first_maximum [OF startup_sample sample_width sample_open_red sample_convert]
  by (auto simp: sample_forward)

text \<open>
  C10. For every upload that decodes, the confidence \<^verbatim>\<open>predict\<close> returns is the greatest
  entry of the softmax vector of that upload: it is at least every class probability.
\<close>

theorem confidence_is_maximum:
  assumes "startup L = Inr g"
    and "\<And>w x. length (forward_eval L w x) = head_width L w"
    and "image_open L b = Inr opened" and "image_convert_rgb L opened = Inr im"
  shows "\<exists>t p. transform L transform_config im = Inr t \<and> predict L g b = (Inr p, g)
           \<and> confidence p = Max (set (softmax (forward_eval L (params (model g)) t)))
           \<and> (\<forall>q \<in> set (softmax (forward_eval L (params (model g)) t)). q \<le> confidence p)"
proof -
  from predict_selected [OF assms] obtain t idx where sel:
    "transform L transform_config im = Inr t" "idx < NUM_CLASSES"
    "length (softmax (forward_eval L (params (model g)) t)) = NUM_CLASSES"
    "\<forall>j<NUM_CLASSES. softmax (forward_eval L (params (model g)) t) ! j
                               \<le> softmax (forward_eval L (params (model g)) t) ! idx"
    "predict L g b = (Inr \<lparr>cls = CLASS_NAMES ! idx,
        confidence = softmax (forward_eval L (params (model g)) t) ! idx\<rparr>, g)"
    by blast
  let ?p = "softmax (forward_eval L (params (model g)) t)"
  have ub: "\<forall>q \<in> set ?p. q \<le> ?p ! idx"
    using sel(3,4) by (auto simp: in_set_conv_nth)
  have mem: "?p ! idx \<in> set ?p" using sel(2,3) by simp
  have "Max (set ?p) = ?p ! idx"
    using ub mem by (intro Max_eqI) auto
  with sel(1,5) ub show ?thesis by simp
qed

theorem confidence_is_maximum_witness:
  "\<exists>t p. transform sample_libs transform_config [[(255, 0, 0)]] = Inr t
       \<and> predict sample_libs sample_globals red_pixel_ppm = (Inr p, sample_globals)
       \<and> confidence p = Max (set (softmax (forward_eval sample_libs (params (model sample_globals)) t)))"
  using confidence_is_maximum [OF startup_sample sample_width sample_open_red sample_convert]
  by blast



text \<open>
  C5. \<^verbatim>\<open>predict\<close> is deterministic: called again on the same bytes, with the globals
  the first call left, it returns the same value or raises the same exception; and in
  any run of the server two requests with the same bytes get the same response. This
  rests on \<^verbatim>\<open>model.eval()\<close> at start-up: the evaluation pass neither draws random
  numbers nor writes buffers.
\<close>

theorem predict_deterministic:
  assumes "startup L = Inr g"
  shows "fst (predict L (snd (predict L g b)) b) = fst (predict L g b)
       \<and> (\<forall>bs i j. i < length bs \<and> j < length bs \<and> bs ! i = bs ! j \<longrightarrow>
             fst (serve L (Serving g) bs) ! i = fst (serve L (Serving g) bs) ! j)"
proof -
  have ev: "training (model g) = False" by (rule startup_globals(1) [OF assms])
  have "snd (predict L g b) = g" using ev by (rule predict_eval_frame)
  then have one: "fst (predict L (snd (predict L g b)) b) = fst (predict L g b)" by simp
  have "fst (serve L (Serving g) bs) ! i = fst (serve L (Serving g) bs) ! j"
    if "i < length bs" "j < length bs" "bs ! i = bs ! j" for bs i j
    using that by (simp add: serve_eval [OF ev])
  with one show ?thesis by blast
qed

theorem predict_deterministic_witness:
  "fst (predict sample_libs (snd (predict sample_libs sample_globals red_pixel_ppm)) red_pixel_ppm)
     = fst (predict sample_libs sample_globals red_pixel_ppm)"
  using predict_deterministic [OF startup_sample] by blast

text \<open>
  C9. \<^verbatim>\<open>predict\<close> writes no shared state: after every call, returning or raising, the
  globals are the ones before it, so the model, the class names and the preprocessing
  configuration are unchanged, and so they are after any sequence of requests.
\<close>

theorem predict_leaves_globals:
  assumes "startup L = Inr g"
  shows "snd (predict L g b) = g
       \<and> model (snd (predict L g b)) = model g
       \<and> class_names (snd (predict L g b)) = CLASS_NAMES
       \<and> transform_cfg (snd (predict L g b)) = transform_config
       \<and> snd (serve L (Serving g) bs) = Serving g"
proof -
  have ev: "training (model g) = False" by (rule startup_globals(1) [OF assms])
  have "snd (predict L g b) = g" using ev by (rule predict_eval_frame)
  moreover have "snd (serve L (Serving g) bs) = Serving g" by (simp add: serve_eval [OF ev])
  ultimately show ?thesis using startup_globals(2,3) [OF assms] by simp
qed

theorem predict_leaves_globals_witness:
  "fst (predict sample_libs sample_globals hello_bytes) = Inl UnidentifiedImageError
   \<and> snd (predict sample_libs sample_globals hello_bytes) = sample_globals
   \<and> snd (predict sample_libs sample_globals red_pixel_ppm) = sample_globals
   \<and> snd (serve sample_libs (Serving sample_globals) [hello_bytes, red_pixel_ppm])
       = Serving sample_globals"
  using predict_leaves_globals [OF startup_sample, of hello_bytes "[hello_bytes, red_pixel_ppm]"]
    predict_leaves_globals [OF startup_sample, of red_pixel_ppm "[]"]
  by (simp add: predict_decode_error sample_open_hello)

text \<open>
  C8. \<open>CLASS_NAMES\<close> has \<open>NUM_CLASSES\<close> entries, which is the width of the model; the
  globals keep this through every run of requests; and for every input of the forward
  pass the index that \<^verbatim>\<open>argmax\<close> returns is below the length of the class names, so
  the lookup \<^verbatim>\<open>CLASS_NAMES[idx]\<close> returns a name and raises no \<^verbatim>\<open>IndexError\<close>.
\<close>

theorem class_lookup_in_bounds:
  assumes "startup L = Inr g"
    and "\<And>w x. length (forward_eval L w x) = head_width L w"
  shows "length CLASS_NAMES = NUM_CLASSES
       \<and> length (class_names g) = num_classes (model g)
       \<and> snd (serve L (Serving g) bs) = Serving g
       \<and> (\<exists>idx. argmax (softmax (forward_eval L (params (model g)) t)) = Inr idx
                \<and> idx < length (class_names g)
                \<and> getitem (class_names g) idx = Inr (CLASS_NAMES ! idx))"
proof -
  note st = startup_globals [OF assms(1)]
  let ?p = "softmax (forward_eval L (params (model g)) t)"
  have names: "length CLASS_NAMES = NUM_CLASSES" by (simp add: CLASS_NAMES_def NUM_CLASSES_def)
  have len: "length ?p = NUM_CLASSES" using assms(2) st(5) by (simp add: length_softmax)
  then have "?p \<noteq> []" by (auto simp: NUM_CLASSES_def)
  from argmax_first_max [OF this] obtain idx where
    idx: "argmax ?p = Inr idx" "idx < length ?p" by blast
  have "idx < length (class_names g)" using idx(2) len names st(2) by simp
  moreover from this have "getitem (class_names g) idx = Inr (CLASS_NAMES ! idx)"
    by (simp add: getitem_def st(2))
  moreover have "snd (serve L (Serving g) bs) = Serving g" by (simp add: serve_eval [OF st(1)])
  ultimately show ?thesis using names st(2,4) idx(1) by simp
qed

theorem class_lookup_in_bounds_witness:
  "length CLASS_NAMES = NUM_CLASSES
   \<and> (\<exists>idx. argmax (softmax [0.1, 5.0, 0.2, 0.3]) = Inr idx
            \<and> idx < length (class_names sample_globals)
            \<and> getitem (class_names sample_globals) idx = Inr (CLASS_NAMES ! idx))"
  using class_lookup_in_bounds [OF startup_sample sample_width, of "[]" "[]", unfolded sample_forward]
  by blast

text \<open>
  C7. When the parameter file loads but the width of its classifier layer is not the
  number of class names, the top level of the module raises (in \<^verbatim>\<open>load_state_dict\<close>),
  the process has no application, and it answers no request whatever is sent.
\<close>

theorem startup_rejects_wrong_width:
  assumes "torch_load L ''model.pth'' (if cuda_is_available L then ''cuda'' else ''cpu'') = Inr sd"
    and "head_width L sd \<noteq> length CLASS_NAMES"
  shows "startup L = Inl StateDictMismatch
       \<and> boot L = Failed StateDictMismatch
       \<and> serve L (boot L) bs = ([], Failed StateDictMismatch)"
proof -
  have "head_width L sd \<noteq> NUM_CLASSES"
    using assms(2) by (simp add: CLASS_NAMES_def NUM_CLASSES_def)
  then have "load_state_dict L (create_model L ''efficientnet_b0'' NUM_CLASSES) sd
               = Inl StateDictMismatch"
    by (simp add: load_state_dict_def create_model_def)
  with assms(1) have "startup L = Inl StateDictMismatch"
    by (simp add: startup_def Let_def)
  then show ?thesis by (simp add: boot_def)
qed

theorem startup_rejects_wrong_width_witness:
  "head_width sample_libs_3 [0.5, 0.25, 0.125] = 3
   \<and> startup sample_libs_3 = Inl StateDictMismatch
   \<and> serve sample_libs_3 (boot sample_libs_3) [red_pixel_ppm] = ([], Failed StateDictMismatch)"
  using startup_rejects_wrong_width [of sample_libs_3 "[0.5, 0.25, 0.125]" "[red_pixel_ppm]"]
  by (simp add: sample_libs_3_def sample_libs_def CLASS_NAMES_def)

text \<open>
  C6. For an image of one pixel \<open>(r, g, b)\<close> the pipeline gives a tensor of three planes
  of 224 x 224 entries, and every entry of the plane of channel \<open>c\<close> is
  \<open>(value / 255 - mean c) / std c\<close> with the means \<open>0.485, 0.456, 0.406\<close> and the
  deviations \<open>0.229, 0.224, 0.225\<close>. The hypothesis is what the library's resize does
  to a one-pixel image: it repeats the pixel over the target size.
\<close>

theorem single_pixel_normalized:
  assumes "image_resize L (224, 224) [[(r, g, b)]] = replicate 224 (replicate 224 (r, g, b))"
  shows "transform L transform_config [[(r, g, b)]] =
           Inr [replicate 224 (replicate 224 ((real (unat r) / 255 - 0.485) / 0.229)),
                replicate 224 (replicate 224 ((real (unat g) / 255 - 0.456) / 0.224)),
                replicate 224 (replicate 224 ((real (unat b) / 255 - 0.406) / 0.225))]"
  using assms
  by (simp add: transform_def transform_config_def normalize_def to_tensor_def plane_def)

theorem single_pixel_normalized_witness:
  "transform sample_libs transform_config [[(255, 0, 0)]] =
           Inr [replicate 224 (replicate 224 ((real (unat (255 :: byte)) / 255 - 0.485) / 0.229)),
                replicate 224 (replicate 224 ((real (unat (0 :: byte)) / 255 - 0.456) / 0.224)),
                replicate 224 (replicate 224 ((real (unat (0 :: byte)) / 255 - 0.406) / 0.225))]"
proof (rule single_pixel_normalized)
  show "image_resize sample_libs (224, 224) [[(255, 0, 0)]] = replicate 224 (replicate 224 (255, 0, 0))"
    by (simp add: sample_libs_def sample_resize_pixel)
qed

text \<open>
  C2, as amended. For every upload that PIL does not open, or opens and cannot convert,
  \<^verbatim>\<open>predict\<close> raises the decoder's exception, returns no prediction and leaves the
  globals as they were; the route does not catch the exception, so the response has
  status 500, a server error and not a client error; the server goes on to answer the
  requests that follow.
\<close>

theorem undecodable_is_server_error:
  assumes "image_open L b = Inl e
         \<or> (\<exists>opened. image_open L b = Inr opened \<and> image_convert_rgb L opened = Inl e)"
  shows "predict L g b = (Inl e, g)
       \<and> post_predict L g b = (\<lparr>status = 500, body = None\<rparr>, g)
       \<and> \<not> client_error (status (fst (post_predict L g b)))
       \<and> serve L (Serving g) (b # bs) =
           (\<lparr>status = 500, body = None\<rparr> # fst (serve L (Serving g) bs),
            snd (serve L (Serving g) bs))"
proof -
  have p: "predict L g b = (Inl e, g)" using assms by (rule predict_decode_error)
  then have q: "post_predict L g b = (\<lparr>status = 500, body = None\<rparr>, g)"
    by (simp add: post_predict_def)
  then have "serve L (Serving g) (b # bs) =
           (\<lparr>status = 500, body = None\<rparr> # fst (serve L (Serving g) bs),
            snd (serve L (Serving g) bs))"
    by (simp split: prod.splits)
  with p q show ?thesis by (simp add: client_error_def)
qed

theorem undecodable_is_server_error_witness:
  "predict sample_libs sample_globals hello_bytes = (Inl UnidentifiedImageError, sample_globals)
   \<and> post_predict sample_libs sample_globals hello_bytes
       = (\<lparr>status = 500, body = None\<rparr>, sample_globals)"
  using undecodable_is_server_error [of sample_libs hello_bytes UnidentifiedImageError sample_globals "[]"]
  by (simp add: sample_open_hello)

text \<open>
  C2 as the specification states it asks for a client error status. On the empty
  buffer the decoder raises, and the status of the response is 500.
\<close>

theorem undecodable_is_client_error_counterexample:
  "startup sample_libs = Inr sample_globals
   \<and> image_open sample_libs [] = Inl UnidentifiedImageError
   \<and> post_predict sample_libs sample_globals [] = (\<lparr>status = 500, body = None\<rparr>, sample_globals)
   \<and> \<not> client_error (status (fst (post_predict sample_libs sample_globals [])))"
proof -
  have "predict sample_libs sample_globals [] = (Inl UnidentifiedImageError, sample_globals)"
    by (rule predict_decode_error) (simp add: sample_open_empty)
  then show ?thesis
    by (simp add: post_predict_def client_error_def startup_sample sample_open_empty)
qed

end
